theory Spec2Isabelle
  imports Complex_Main
begin

section \<open>Meeting statistics: a shallow embedding of \<open>src/modules/meetingStats.js\<close>\<close>

text \<open>
  Modelling conventions.
  \<^item> A JavaScript Number that holds a counter, a number of minutes or a number of
    milliseconds is an \<open>int\<close>; a quotient is an exact \<open>rat\<close>. The rounding of
    intermediate results to IEEE doubles is not modelled.
  \<^item> A \<open>Date\<close> is its number of milliseconds since the epoch.
  \<^item> A string is a \<open>string\<close>; numbers are rendered in decimal, as the template
    literal does for an integer.
  \<^item> An optional argument or payload field is an \<open>option\<close>, with \<open>None\<close> for
    \<open>undefined\<close>. The user id and the meeting id of a call are taken to be present; an
    empty meeting id stands for one that fails the schema's \<open>required\<close> check.
  \<^item> Operations run one after the other, except where an interleaving is written out.
    Logging is not modelled, and an emission on a socket does not throw.
\<close>

subsection \<open>Numbers and their rendering\<close>

text \<open>\<open>Math.round\<close>: the nearest integer, a tie going towards plus infinity.\<close>

definition js_round :: "rat \<Rightarrow> int" where
  "js_round x = \<lfloor>x + 1 / 2\<rfloor>"

text \<open>\<open>Math.floor\<close>.\<close>

definition js_floor :: "rat \<Rightarrow> int" where
  "js_floor x = \<lfloor>x\<rfloor>"

text \<open>
  The remainder operator \<open>%\<close>: the quotient is truncated towards zero, so the result
  has the sign of the dividend. (For a zero divisor JavaScript gives NaN; the only
  divisor in this program is 60.)
\<close>

definition js_rem :: "int \<Rightarrow> int \<Rightarrow> int" where
  "js_rem a b = sgn a * (\<bar>a\<bar> mod \<bar>b\<bar>)"

definition digit_char :: "nat \<Rightarrow> char" where
  "digit_char d = ''0123456789'' ! d"

fun string_of_nat :: "nat \<Rightarrow> string" where
  "string_of_nat n =
     (if n < 10 then [digit_char n]
      else string_of_nat (n div 10) @ [digit_char (n mod 10)])"

text \<open>What a template literal inserts for an integral Number.\<close>

definition ToString :: "int \<Rightarrow> string" where
  "ToString i = (if i < 0 then ''-'' @ string_of_nat (nat (- i)) else string_of_nat (nat i))"

subsection \<open>The two helpers\<close>

text \<open>
  \<^verbatim>\<open>
  const formatDuration = (minutes) => {
    const hours = Math.floor(minutes / 60);
    const mins = minutes % 60;
    return `${hours}h ${mins}m`;
  };
  \<close>
\<close>

definition formatDuration :: "int \<Rightarrow> string" where
  "formatDuration minutes =
     (let hours = js_floor (of_int minutes / 60);
          mins = js_rem minutes 60
      in ToString hours @ ''h '' @ ToString mins @ ''m'')"

text \<open>
  \<^verbatim>\<open>
  const calculatePercentageChange = (current, previous) => {
    if (previous === 0) return current > 0 ? 100 : 0;
    return Math.round(((current - previous) / previous) * 100);
  };
  \<close>
\<close>

definition calculatePercentageChange :: "rat \<Rightarrow> rat \<Rightarrow> int" where
  "calculatePercentageChange current previous =
     (if previous = 0 then (if current > 0 then 100 else 0)
      else js_round (((current - previous) / previous) * 100))"

subsection \<open>Documents\<close>

text \<open>
  The projections computed for display come first, so that an unqualified field name
  such as \<open>totalCalls\<close> or \<open>lastUpdated\<close> refers to the stored document; the fields of
  a projection are written qualified.
\<close>

datatype ChangeType = positive | negative | neutral

record 'v StatEntry =
  "value" :: 'v
  change :: int
  changeType :: ChangeType

record DurationEntry = "string StatEntry" +
  rawValue :: int

type_synonym ObjectId = nat
type_synonym Date = int

record FormattedStats =
  totalCalls :: "int StatEntry"
  totalDuration :: DurationEntry
  totalParticipants :: "int StatEntry"
  meetingsScheduled :: "int StatEntry"
  lastUpdated :: Date

datatype Status = active | completed | cancelled

text \<open>\<open>meetingRecordSchema\<close>; \<open>endTime\<close> is absent until the meeting ends.\<close>

record MeetingRecord =
  userId :: ObjectId
  meetingId :: string
  meetingTitle :: string
  startTime :: Date
  endTime :: "Date option"
  duration :: int
  participantCount :: int
  isScheduled :: bool
  status :: Status
  createdAt :: Date

text \<open>\<open>meetingStatsSchema\<close>: the four live counters, and a snapshot of the same four.\<close>

record Counters =
  totalCalls :: int
  totalDuration :: int
  totalParticipants :: int
  meetingsScheduled :: int

record MeetingStats = Counters +
  userId :: ObjectId
  lastMonthStats :: Counters
  lastUpdated :: Date
  createdAt :: Date

text \<open>What \<open>getRecentMeetings\<close> returns for one meeting: the lean document and two strings.\<close>

record RecentMeeting =
  meeting :: "nat \<times> MeetingRecord"
  formattedDuration :: string
  formattedStartTime :: string

subsection \<open>The store, the clock and failures\<close>

text \<open>
  Each collection is the list of its documents in insertion order. Nothing in this
  program deletes a document, so the position of a document identifies it: a loaded
  document is the pair of its position (its \<open>_id\<close>) and its fields.

  The wall clock and the availability of the store are not decided by the program. The
  world carries them as two oracles indexed by a step counter: every reading of the
  clock and every round trip to the store takes one step; \<open>clock w n\<close> is the time read
  at step \<open>n\<close> and \<open>fault w n\<close> tells whether the round trip at step \<open>n\<close> fails.
\<close>

record world =
  MeetingStats_coll :: "MeetingStats list"
  MeetingRecord_coll :: "MeetingRecord list"
  step :: nat
  clock :: "nat \<Rightarrow> Date"
  fault :: "nat \<Rightarrow> bool"

datatype error = StoreError | DuplicateKey | ValidationError | TypeError

text \<open>
  An asynchronous operation takes the world and gives back either the error it threw or
  its value, together with the world it leaves: what an operation wrote before it threw
  stays written.
\<close>

type_synonym 'a action = "world \<Rightarrow> (error + 'a) \<times> world"

definition return :: "'a \<Rightarrow> 'a action" where
  "return a w = (Inr a, w)"

definition throw :: "error \<Rightarrow> 'a action" where
  "throw e w = (Inl e, w)"

text \<open>\<open>const a = await m; ...\<close>: an error of \<open>m\<close> skips the rest.\<close>

definition await :: "'a action \<Rightarrow> ('a \<Rightarrow> 'b action) \<Rightarrow> 'b action" where
  "await m f w = (case m w of (Inl e, w') \<Rightarrow> (Inl e, w') | (Inr a, w') \<Rightarrow> f a w')"

definition tick :: "world \<Rightarrow> world" where
  "tick w = w\<lparr>step := Suc (step w)\<rparr>"

text \<open>\<open>new Date()\<close> and \<open>Date.now\<close>.\<close>

definition new_Date :: "Date action" where
  "new_Date w = (Inr (clock w (step w)), tick w)"

text \<open>One round trip to the store.\<close>

definition store_op :: "'a action \<Rightarrow> 'a action" where
  "store_op f w = (if fault w (step w) then (Inl StoreError, tick w) else f (tick w))"

fun findIndex :: "('a \<Rightarrow> bool) \<Rightarrow> 'a list \<Rightarrow> nat option" where
  "findIndex P [] = None"
| "findIndex P (x # xs) = (if P x then Some 0 else map_option Suc (findIndex P xs))"

definition loaded :: "'a list \<Rightarrow> nat \<Rightarrow> nat \<times> 'a" where
  "loaded xs i = (i, xs ! i)"

text \<open>\<open>MeetingStats.findOne({ userId })\<close>: the first document of that user, or null.\<close>

definition MeetingStats_findOne :: "ObjectId \<Rightarrow> (nat \<times> MeetingStats) option action" where
  "MeetingStats_findOne uid =
     store_op (\<lambda>w. (Inr (map_option (loaded (MeetingStats_coll w))
                            (findIndex (\<lambda>d. MeetingStats.userId d = uid) (MeetingStats_coll w))), w))"

text \<open>\<open>MeetingStats.find({})\<close>.\<close>

definition MeetingStats_find :: "(nat \<times> MeetingStats) list action" where
  "MeetingStats_find = store_op (\<lambda>w. (Inr (enumerate 0 (MeetingStats_coll w)), w))"

text \<open>
  \<open>stats.save()\<close> on a new document: \<open>userId\<close> is declared \<open>unique\<close>, so the store
  refuses a second document of the same user with a duplicate-key error.
\<close>

definition MeetingStats_insert :: "MeetingStats \<Rightarrow> nat action" where
  "MeetingStats_insert doc =
     store_op (\<lambda>w. if \<exists>d \<in> set (MeetingStats_coll w). MeetingStats.userId d = MeetingStats.userId doc
                    then (Inl DuplicateKey, w)
                    else (Inr (length (MeetingStats_coll w)),
                          w\<lparr>MeetingStats_coll := MeetingStats_coll w @ [doc]\<rparr>))"

text \<open>\<open>stats.save()\<close> on a loaded document.\<close>

definition MeetingStats_update :: "nat \<times> MeetingStats \<Rightarrow> unit action" where
  "MeetingStats_update h =
     store_op (\<lambda>w. (Inr (), w\<lparr>MeetingStats_coll := (MeetingStats_coll w)[fst h := snd h]\<rparr>))"

text \<open>\<open>MeetingRecord.findOne({ userId, meetingId, status })\<close>.\<close>

definition record_filter :: "ObjectId \<Rightarrow> string \<Rightarrow> Status \<Rightarrow> MeetingRecord \<Rightarrow> bool" where
  "record_filter uid mid st d \<longleftrightarrow> MeetingRecord.userId d = uid \<and> meetingId d = mid \<and> status d = st"

definition MeetingRecord_findOne ::
  "ObjectId \<Rightarrow> string \<Rightarrow> Status \<Rightarrow> (nat \<times> MeetingRecord) option action" where
  "MeetingRecord_findOne uid mid st =
     store_op (\<lambda>w. (Inr (map_option (loaded (MeetingRecord_coll w))
                            (findIndex (record_filter uid mid st) (MeetingRecord_coll w))), w))"

text \<open>
  \<open>meetingRecord.save()\<close> on a new document. The schema is validated before anything is
  sent: \<open>meetingId\<close> is a required string, which an empty string does not satisfy.
\<close>

definition MeetingRecord_insert :: "MeetingRecord \<Rightarrow> nat action" where
  "MeetingRecord_insert doc =
     (if meetingId doc = [] then throw ValidationError
      else store_op (\<lambda>w. (Inr (length (MeetingRecord_coll w)),
                           w\<lparr>MeetingRecord_coll := MeetingRecord_coll w @ [doc]\<rparr>)))"

text \<open>\<open>meetingRecord.save()\<close> on a loaded document.\<close>

definition MeetingRecord_update :: "nat \<times> MeetingRecord \<Rightarrow> unit action" where
  "MeetingRecord_update h =
     store_op (\<lambda>w. (Inr (), w\<lparr>MeetingRecord_coll := (MeetingRecord_coll w)[fst h := snd h]\<rparr>))"

text \<open>
  \<open>limit(n)\<close> of the store's query: a positive \<open>n\<close> keeps the first \<open>n\<close> documents, zero
  means no limit, and a negative \<open>n\<close> is taken by its absolute value.
\<close>

definition limit_query :: "int \<Rightarrow> 'a list \<Rightarrow> 'a list" where
  "limit_query n xs = (if n = 0 then xs else take (nat \<bar>n\<bar>) xs)"

text \<open>\<open>MeetingRecord.find({ userId }).sort({ startTime: -1 }).limit(limit).lean()\<close>.\<close>

definition MeetingRecord_find_recent :: "ObjectId \<Rightarrow> int \<Rightarrow> (nat \<times> MeetingRecord) list action" where
  "MeetingRecord_find_recent uid n =
     store_op (\<lambda>w. (Inr (limit_query n
                            (sort_key (\<lambda>h. - startTime (snd h))
                               (filter (\<lambda>h. MeetingRecord.userId (snd h) = uid)
                                  (enumerate 0 (MeetingRecord_coll w))))), w))"

subsection \<open>The statistics aggregator\<close>

text \<open>\<open>new MeetingStats({ userId })\<close>: the schema defaults, two of them \<open>Date.now\<close>.\<close>

definition zero_counters :: Counters where
  "zero_counters = \<lparr>totalCalls = 0, totalDuration = 0, totalParticipants = 0, meetingsScheduled = 0\<rparr>"

definition new_MeetingStats :: "ObjectId \<Rightarrow> MeetingStats action" where
  "new_MeetingStats uid =
     await new_Date (\<lambda>t1.
     await new_Date (\<lambda>t2.
     return \<lparr>totalCalls = 0, totalDuration = 0, totalParticipants = 0, meetingsScheduled = 0,
             userId = uid, lastMonthStats = zero_counters, lastUpdated = t1, createdAt = t2\<rparr>))"

text \<open>
  \<^verbatim>\<open>
  const getUserStats = async (userId) => {
    try {
      let stats = await MeetingStats.findOne({ userId });
      if (!stats) {
        stats = new MeetingStats({ userId });
        await stats.save();
      }
      return stats;
    } catch (error) {
      console.error('Error getting user stats:', error);
      throw error;
    }
  };
  \<close>
  The handler logs and throws the same error again, so the error of a step is the error
  of the operation. Logging is not modelled.
\<close>

definition getUserStats :: "ObjectId \<Rightarrow> (nat \<times> MeetingStats) action" where
  "getUserStats uid =
     await (MeetingStats_findOne uid) (\<lambda>found.
       case found of
         Some stats \<Rightarrow> return stats
       | None \<Rightarrow>
           await (new_MeetingStats uid) (\<lambda>stats.
           await (MeetingStats_insert stats) (\<lambda>sid.
           return (sid, stats))))"

text \<open>
  The same operation when other operations are in flight: while this one waits for the
  answer of \<open>findOne\<close>, the others change the world by \<open>others\<close>.
\<close>

definition getUserStats_interleaved :: "(world \<Rightarrow> world) \<Rightarrow> ObjectId \<Rightarrow> (nat \<times> MeetingStats) action" where
  "getUserStats_interleaved others uid =
     await (MeetingStats_findOne uid) (\<lambda>found w.
       (case found of
          Some stats \<Rightarrow> return stats
        | None \<Rightarrow>
            await (new_MeetingStats uid) (\<lambda>stats.
            await (MeetingStats_insert stats) (\<lambda>sid.
            return (sid, stats)))) (others w))"

text \<open>
  \<open>new MeetingRecord({ userId, meetingId, meetingTitle, startTime, isScheduled, status })\<close>
  with the schema defaults for the rest.
\<close>

definition new_MeetingRecord ::
  "ObjectId \<Rightarrow> string \<Rightarrow> string \<Rightarrow> Date \<Rightarrow> bool \<Rightarrow> Status \<Rightarrow> MeetingRecord action" where
  "new_MeetingRecord uid mid title start sched st =
     await new_Date (\<lambda>t.
     return \<lparr>MeetingRecord.userId = uid, meetingId = mid, meetingTitle = title, startTime = start,
             endTime = None, duration = 0, participantCount = 1, isScheduled = sched,
             status = st, MeetingRecord.createdAt = t\<rparr>)"

text \<open>A parameter with a default value: the default is taken when the argument is absent.\<close>

definition or_default :: "'a \<Rightarrow> 'a option \<Rightarrow> 'a" where
  "or_default d arg = (case arg of None \<Rightarrow> d | Some v \<Rightarrow> v)"

text \<open>
  \<^verbatim>\<open>
  const recordMeetingStart = async (userId, meetingId, meetingTitle = 'Video Call',
                                    isScheduled = false) => {
    try {
      const meetingRecord = new MeetingRecord({
        userId, meetingId, meetingTitle, startTime: new Date(), isScheduled, status: 'active'
      });
      await meetingRecord.save();
      const stats = await getUserStats(userId);
      stats.totalCalls += 1;
      if (isScheduled) {
        stats.meetingsScheduled += 1;
      }
      stats.lastUpdated = new Date();
      await stats.save();
      return meetingRecord;
    } catch (error) { ...; throw error; }
  };
  \<close>
\<close>

definition recordMeetingStart ::
  "ObjectId \<Rightarrow> string \<Rightarrow> string option \<Rightarrow> bool option \<Rightarrow> (nat \<times> MeetingRecord) action" where
  "recordMeetingStart uid mid meetingTitle_arg isScheduled_arg =
     (let title = or_default ''Video Call'' meetingTitle_arg;
          sched = or_default False isScheduled_arg
      in await new_Date (\<lambda>start.
         await (new_MeetingRecord uid mid title start sched active) (\<lambda>meetingRecord.
         await (MeetingRecord_insert meetingRecord) (\<lambda>rid.
         await (getUserStats uid) (\<lambda>(sid, stats).
         let stats1 = stats\<lparr>totalCalls := totalCalls stats + 1\<rparr>;
             stats2 = (if sched then stats1\<lparr>meetingsScheduled := meetingsScheduled stats1 + 1\<rparr>
                       else stats1)
         in await new_Date (\<lambda>now.
            await (MeetingStats_update (sid, stats2\<lparr>lastUpdated := now\<rparr>)) (\<lambda>_.
            return (rid, meetingRecord))))))))"

text \<open>
  \<^verbatim>\<open>
  const recordMeetingEnd = async (userId, meetingId, participantCount = 1) => {
    try {
      const meetingRecord = await MeetingRecord.findOne({ userId, meetingId, status: 'active' });
      if (!meetingRecord) {
        console.warn(...);
        return null;
      }
      const endTime = new Date();
      const duration = Math.round((endTime - meetingRecord.startTime) / (1000 * 60));
      meetingRecord.endTime = endTime;
      meetingRecord.duration = duration;
      meetingRecord.participantCount = participantCount;
      meetingRecord.status = 'completed';
      await meetingRecord.save();
      const stats = await getUserStats(userId);
      stats.totalDuration += duration;
      stats.totalParticipants += participantCount;
      stats.lastUpdated = new Date();
      await stats.save();
      return meetingRecord;
    } catch (error) { ...; throw error; }
  };
  \<close>
\<close>

definition recordMeetingEnd ::
  "ObjectId \<Rightarrow> string \<Rightarrow> int option \<Rightarrow> (nat \<times> MeetingRecord) option action" where
  "recordMeetingEnd uid mid participantCount_arg =
     (let count = or_default 1 participantCount_arg
      in await (MeetingRecord_findOne uid mid active) (\<lambda>found.
           case found of
             None \<Rightarrow> return None
           | Some (rid, meetingRecord) \<Rightarrow>
               await new_Date (\<lambda>end.
               let dur = js_round (of_int (end - startTime meetingRecord) / (1000 * 60));
                   meetingRecord' = meetingRecord\<lparr>endTime := Some end, duration := dur,
                                                  participantCount := count, status := completed\<rparr>
               in await (MeetingRecord_update (rid, meetingRecord')) (\<lambda>_.
                  await (getUserStats uid) (\<lambda>(sid, stats).
                  let stats' = stats\<lparr>totalDuration := totalDuration stats + dur,
                                     totalParticipants := totalParticipants stats + count\<rparr>
                  in await new_Date (\<lambda>now.
                     await (MeetingStats_update (sid, stats'\<lparr>lastUpdated := now\<rparr>)) (\<lambda>_.
                     return (Some (rid, meetingRecord')))))))))"

text \<open>
  \<open>getFormattedStats\<close>: each counter with its percentage change against the snapshot and
  the sign of that change; the duration also as a string.
\<close>

definition changeTypeOf :: "int \<Rightarrow> ChangeType" where
  "changeTypeOf c = (if c > 0 then positive else if c < 0 then negative else neutral)"

definition getFormattedStats :: "ObjectId \<Rightarrow> FormattedStats action" where
  "getFormattedStats uid =
     await (getUserStats uid) (\<lambda>(sid, stats).
     let callsChange = calculatePercentageChange (of_int (totalCalls stats))
                         (of_int (totalCalls (lastMonthStats stats)));
         durationChange = calculatePercentageChange (of_int (totalDuration stats))
                            (of_int (totalDuration (lastMonthStats stats)));
         participantsChange = calculatePercentageChange (of_int (totalParticipants stats))
                                (of_int (totalParticipants (lastMonthStats stats)));
         scheduledChange = calculatePercentageChange (of_int (meetingsScheduled stats))
                             (of_int (meetingsScheduled (lastMonthStats stats)))
     in return
          \<lparr>FormattedStats.totalCalls =
             \<lparr>value = totalCalls stats, change = callsChange,
              changeType = changeTypeOf callsChange\<rparr>,
           FormattedStats.totalDuration =
             \<lparr>value = formatDuration (totalDuration stats), change = durationChange,
              changeType = changeTypeOf durationChange, rawValue = totalDuration stats\<rparr>,
           FormattedStats.totalParticipants =
             \<lparr>value = totalParticipants stats, change = participantsChange,
              changeType = changeTypeOf participantsChange\<rparr>,
           FormattedStats.meetingsScheduled =
             \<lparr>value = meetingsScheduled stats, change = scheduledChange,
              changeType = changeTypeOf scheduledChange\<rparr>,
           FormattedStats.lastUpdated = lastUpdated stats\<rparr>)"

text \<open>
  \<^verbatim>\<open>
  const resetMonthlyStats = async () => {
    try {
      const allStats = await MeetingStats.find({});
      for (const stats of allStats) {
        stats.lastMonthStats = {
          totalCalls: stats.totalCalls,
          totalDuration: stats.totalDuration,
          totalParticipants: stats.totalParticipants,
          meetingsScheduled: stats.meetingsScheduled
        };
        await stats.save();
      }
      console.log('Monthly stats reset completed');
    } catch (error) { ...; throw error; }
  };
  \<close>
\<close>

fun resetMonthlyStats_loop :: "(nat \<times> MeetingStats) list \<Rightarrow> unit action" where
  "resetMonthlyStats_loop [] w = return () w"
| "resetMonthlyStats_loop ((sid, stats) # rest) w =
     await (MeetingStats_update
              (sid, stats\<lparr>lastMonthStats :=
                            \<lparr>totalCalls = totalCalls stats,
                             totalDuration = totalDuration stats,
                             totalParticipants = totalParticipants stats,
                             meetingsScheduled = meetingsScheduled stats\<rparr>\<rparr>))
           (\<lambda>_. resetMonthlyStats_loop rest) w"

definition resetMonthlyStats :: "unit action" where
  "resetMonthlyStats = await MeetingStats_find (\<lambda>allStats. resetMonthlyStats_loop allStats)"

text \<open>
  \<^verbatim>\<open>
  const getRecentMeetings = async (userId, limit = 10) => {
    try {
      const meetings = await MeetingRecord.find({ userId })
        .sort({ startTime: -1 }).limit(limit).lean();
      return meetings.map(meeting => ({
        ...meeting,
        formattedDuration: formatDuration(meeting.duration),
        formattedStartTime: meeting.startTime.toLocaleString()
      }));
    } catch (error) { ...; throw error; }
  };
  \<close>
  The rendering of a date in the server's locale is a parameter.
\<close>

definition getRecentMeetings ::
  "(Date \<Rightarrow> string) \<Rightarrow> ObjectId \<Rightarrow> int option \<Rightarrow> RecentMeeting list action" where
  "getRecentMeetings toLocaleString uid limit_arg =
     (let limit = or_default 10 limit_arg
      in await (MeetingRecord_find_recent uid limit) (\<lambda>meetings.
         return (map (\<lambda>m. \<lparr>meeting = m,
                            formattedDuration = formatDuration (duration (snd m)),
                            formattedStartTime = toLocaleString (startTime (snd m))\<rparr>)
                     meetings)))"

subsection \<open>The request surface\<close>

datatype body =
    ErrorBody string
  | MeetingsBody "RecentMeeting list"
  | StatsBody FormattedStats






subsection \<open>The event relay\<close>

text \<open>
  What a handler sends: \<open>socket.emit\<close> reaches the originating connection only,
  \<open>socket.broadcast.emit\<close> every other connection.
\<close>

datatype message =
    stats_updated FormattedStats
  | stats_updated_for ObjectId FormattedStats
  | stats_error string

datatype emission = Emit message | Broadcast message

text \<open>What the \<open>catch\<close> block of either handler sends.\<close>

definition failure_reply :: "emission list" where
  "failure_reply = [Emit (stats_error ''Failed to update meeting statistics'')]"

text \<open>The payloads of \<open>meeting-started\<close> and \<open>meeting-ended\<close>; a message may carry none.\<close>

datatype started = Started ObjectId string "string option" "bool option"

datatype ended = Ended ObjectId string "int option"

text \<open>
  \<^verbatim>\<open>
  const handleMeetingStart = async (socket, data) => {
    try {
      const { userId, meetingId, meetingTitle, isScheduled } = data;
      await recordMeetingStart(userId, meetingId, meetingTitle, isScheduled);
      const stats = await getFormattedStats(userId);
      socket.emit('stats-updated', stats);
      socket.broadcast.emit('stats-updated', { userId, stats });
    } catch (error) {
      console.error('Error handling meeting start:', error);
      socket.emit('stats-error', { error: 'Failed to update meeting statistics' });
    }
  };
  \<close>
  The body of the \<open>try\<close> up to the first emission is \<open>meetingStart_processing\<close>.
\<close>

definition meetingStart_processing :: "started option \<Rightarrow> (ObjectId \<times> FormattedStats) action" where
  "meetingStart_processing data =
     (case data of
        None \<Rightarrow> throw TypeError
      | Some (Started uid mid title sched) \<Rightarrow>
          await (recordMeetingStart uid mid title sched) (\<lambda>_.
          await (getFormattedStats uid) (\<lambda>stats.
          return (uid, stats))))"

definition handleMeetingStart :: "started option \<Rightarrow> world \<Rightarrow> emission list \<times> world" where
  "handleMeetingStart data w =
     (case meetingStart_processing data w of
        (Inr (uid, stats), w') \<Rightarrow>
          ([Emit (stats_updated stats), Broadcast (stats_updated_for uid stats)], w')
      | (Inl e, w') \<Rightarrow>
          ([Emit (stats_error ''Failed to update meeting statistics'')], w'))"

text \<open>\<open>handleMeetingEnd\<close> has the same shape, with \<open>recordMeetingEnd\<close>.\<close>

definition meetingEnd_processing :: "ended option \<Rightarrow> (ObjectId \<times> FormattedStats) action" where
  "meetingEnd_processing data =
     (case data of
        None \<Rightarrow> throw TypeError
      | Some (Ended uid mid count) \<Rightarrow>
          await (recordMeetingEnd uid mid count) (\<lambda>_.
          await (getFormattedStats uid) (\<lambda>stats.
          return (uid, stats))))"

definition handleMeetingEnd :: "ended option \<Rightarrow> world \<Rightarrow> emission list \<times> world" where
  "handleMeetingEnd data w =
     (case meetingEnd_processing data w of
        (Inr (uid, stats), w') \<Rightarrow>
          ([Emit (stats_updated stats), Broadcast (stats_updated_for uid stats)], w')
      | (Inl e, w') \<Rightarrow>
          ([Emit (stats_error ''Failed to update meeting statistics'')], w'))"

subsection \<open>Observations on the store\<close>

text \<open>The statistics document of a user, if there is one, and a counter read from it.\<close>

definition stats_of :: "world \<Rightarrow> ObjectId \<Rightarrow> MeetingStats option" where
  "stats_of w uid =
     map_option (\<lambda>i. MeetingStats_coll w ! i)
       (findIndex (\<lambda>d. MeetingStats.userId d = uid) (MeetingStats_coll w))"

text \<open>A user without a document has the counters of a fresh one, which are all zero.\<close>

definition counter_of :: "(MeetingStats \<Rightarrow> int) \<Rightarrow> world \<Rightarrow> ObjectId \<Rightarrow> int" where
  "counter_of f w uid = (case stats_of w uid of None \<Rightarrow> 0 | Some s \<Rightarrow> f s)"

text \<open>The store answers every round trip from step \<open>n\<close> on.\<close>

definition reachable_from :: "world \<Rightarrow> nat \<Rightarrow> bool" where
  "reachable_from w n \<longleftrightarrow> (\<forall>k\<ge>n. \<not> fault w k)"

text \<open>
  What \<open>recordMeetingEnd\<close> is specified to write into the record of a meeting that ends at
  time \<open>t\<close> with \<open>n\<close> participants: the duration is the rounded number of minutes since the
  start, and nothing clamps it.
\<close>

definition completed_at :: "MeetingRecord \<Rightarrow> Date \<Rightarrow> int \<Rightarrow> MeetingRecord" where
  "completed_at r t n =
     r\<lparr>endTime := Some t, duration := js_round (of_int (t - startTime r) / 60000),
       participantCount := n, status := completed\<rparr>"

text \<open>
  An operation fails only by a fault of the store: whenever it throws, some round trip at
  or after its first step was refused; and when it returns, it has left the oracles alone.
\<close>

definition fails_only_by_fault :: "'a action \<Rightarrow> bool" where
  "fails_only_by_fault m \<longleftrightarrow>
     (\<forall>w r w'. m w = (r, w') \<longrightarrow>
        (case r of Inl e \<Rightarrow> \<exists>k\<ge>step w. fault w k
                 | Inr a \<Rightarrow> fault w' = fault w \<and> step w \<le> step w'))"

text \<open>
  What the monthly roll-over is specified to do to one statistics document: the snapshot
  becomes a copy of the four live counters, and nothing else changes.
\<close>

definition rolled_over :: "MeetingStats \<Rightarrow> MeetingStats" where
  "rolled_over s = s\<lparr>lastMonthStats :=
                       \<lparr>totalCalls = totalCalls s, totalDuration = totalDuration s,
                        totalParticipants = totalParticipants s,
                        meetingsScheduled = meetingsScheduled s\<rparr>\<rparr>"

subsection \<open>A small world to run the operations in\<close>

text \<open>
  The store never fails and the clock advances 65 minutes with every step. One user has
  started the meeting \<open>m1\<close> at time 0.
\<close>

definition no_fault :: "nat \<Rightarrow> bool" where
  "no_fault n = False"

definition example_clock :: "nat \<Rightarrow> Date" where
  "example_clock n = 3900000 * int n"

definition example_record :: MeetingRecord where
  "example_record =
     \<lparr>MeetingRecord.userId = 1, meetingId = ''m1'', meetingTitle = ''Video Call'', startTime = 0,
      endTime = None, duration = 0, participantCount = 1, isScheduled = False,
      status = active, MeetingRecord.createdAt = 0\<rparr>"

definition example_stats :: MeetingStats where
  "example_stats =
     \<lparr>totalCalls = 1, totalDuration = 0, totalParticipants = 0, meetingsScheduled = 0,
      userId = 1, lastMonthStats = zero_counters, lastUpdated = 0, createdAt = 0\<rparr>"

definition empty_world :: world where
  "empty_world = \<lparr>MeetingStats_coll = [], MeetingRecord_coll = [], step = 0,
                   clock = example_clock, fault = no_fault\<rparr>"

definition started_world :: world where
  "started_world = \<lparr>MeetingStats_coll = [example_stats], MeetingRecord_coll = [example_record],
                     step = 0, clock = example_clock, fault = no_fault\<rparr>"


section \<open>Properties of the helpers\<close>


lemma js_round_unique:
  assumes "of_int r - 1 / 2 \<le> x" and "x < of_int r + 1 / 2"
  shows "js_round x = r"
  unfolding js_round_def using assms by linarith

lemma js_floor_div: "js_floor (of_int m / 60) = m div 60"
proof -
  have "\<lfloor>(of_int m :: rat) / of_int 60\<rfloor> = m div 60"
    by (rule floor_divide_of_int_eq)
  thus ?thesis by (simp add: js_floor_def)
qed

lemma formatDuration_eq:
  "formatDuration m = ToString (m div 60) @ ''h '' @ ToString (js_rem m 60) @ ''m''"
  by (simp add: formatDuration_def js_floor_div)


lemma js_rem_neg: "a < 0 \<Longrightarrow> js_rem a 60 = - ((- a) mod 60)"
  by (simp add: js_rem_def)



text \<open>
  C10 (as amended). For a negative number of minutes the hour part is the floored
  quotient by 60 and the minutes part is the truncated remainder, which is never
  positive: it is negative unless the number of minutes is a multiple of 60, and then it
  is rendered as 0. So -5 minutes give "-1h -5m" and -60 minutes give "-1h 0m".
\<close>

theorem formatDuration_negative:
  "(\<forall>m<0. formatDuration m = ToString (m div 60) @ ''h '' @ ToString (js_rem m 60) @ ''m''
          \<and> js_rem m 60 \<le> 0
          \<and> (js_rem m 60 < 0 \<longleftrightarrow> \<not> 60 dvd m))
   \<and> formatDuration (- 5) = ''-1h -5m''
   \<and> formatDuration (- 60) = ''-1h 0m''"
proof -
  note gen = formatDuration_eq
  have sign: "js_rem m 60 \<le> 0 \<and> (js_rem m 60 < 0 \<longleftrightarrow> \<not> 60 dvd m)" if "m < 0" for m
  proof -
    have "0 \<le> (- m) mod 60" by simp
    moreover have "(- m) mod 60 = 0 \<longleftrightarrow> 60 dvd m"
      by (simp add: mod_eq_0_iff_dvd)
    ultimately show ?thesis using that by (simp add: js_rem_neg) linarith
  qed
  have "formatDuration (- 5) = ''-1h -5m''"
    by (simp add: gen js_rem_def ToString_def digit_char_def)
  moreover have "formatDuration (- 60) = ''-1h 0m''"
    by (simp add: gen js_rem_def ToString_def digit_char_def)
  ultimately show ?thesis using gen sign by blast
qed

theorem formatDuration_negative_witness:
  "(- 125 :: int) < 0 \<and> formatDuration (- 125) = ''-3h -5m'' \<and> js_rem (- 125) 60 < 0"
proof -
  have "formatDuration (- 125)
          = ToString ((- 125) div 60) @ ''h '' @ ToString (js_rem (- 125) 60) @ ''m''
        \<and> (js_rem (- 125) 60 < 0 \<longleftrightarrow> \<not> (60::int) dvd (- 125))"
    using formatDuration_negative by simp
  thus ?thesis by (simp add: js_rem_def ToString_def digit_char_def)
qed

text \<open>
  C10 as stated says that the minutes part is negative for every negative number of
  minutes. At -60 the remainder is zero and the rendering is "-1h 0m".
\<close>

theorem formatDuration_negative_counterexample:
  "\<not> js_rem (- 60) 60 < 0 \<and> formatDuration (- 60) = ''-1h 0m''"
  by (simp add: formatDuration_eq js_rem_def ToString_def digit_char_def)



section \<open>Properties of the store operations\<close>

lemma findIndex_None_iff: "findIndex P xs = None \<longleftrightarrow> (\<forall>x\<in>set xs. \<not> P x)"
  by (induction xs) auto

lemma findIndex_Some_iff:
  "findIndex P xs = Some i \<longleftrightarrow> i < length xs \<and> P (xs ! i) \<and> (\<forall>j<i. \<not> P (xs ! j))"
proof (induction xs arbitrary: i)
  case Nil
  then show ?case by simp
next
  case (Cons x xs)
  show ?case
  proof (cases "P x")
    case True
    have "findIndex P (x # xs) = Some i \<longleftrightarrow> i = 0" using True by auto
    moreover have "i = 0 \<longleftrightarrow> i < length (x # xs) \<and> P ((x # xs) ! i) \<and> (\<forall>j<i. \<not> P ((x # xs) ! j))"
      using True by (cases i) auto
    ultimately show ?thesis by blast
  next
    case False
    show ?thesis
    proof (cases i)
      case 0
      with False show ?thesis by simp
    next
      case (Suc k)
      have "(\<forall>j<Suc k. \<not> P ((x # xs) ! j)) \<longleftrightarrow> (\<forall>j<k. \<not> P (xs ! j))"
      proof
        assume a: "\<forall>j<Suc k. \<not> P ((x # xs) ! j)"
        show "\<forall>j<k. \<not> P (xs ! j)"
        proof (intro allI impI)
          fix j assume "j < k"
          hence "Suc j < Suc k" by simp
          with a have "\<not> P ((x # xs) ! Suc j)" by blast
          thus "\<not> P (xs ! j)" by simp
        qed
      next
        assume a: "\<forall>j<k. \<not> P (xs ! j)"
        show "\<forall>j<Suc k. \<not> P ((x # xs) ! j)"
        proof (intro allI impI)
          fix j assume "j < Suc k"
          thus "\<not> P ((x # xs) ! j)" using a False by (cases j) auto
        qed
      qed
      moreover have "findIndex P (x # xs) = Some (Suc k) \<longleftrightarrow> findIndex P xs = Some k"
        using False by auto
      ultimately show ?thesis using Suc Cons.IH [of k] by simp
    qed
  qed
qed

lemma findIndex_unique:
  assumes "i < length xs" and "P (xs ! i)" and "\<forall>j<length xs. P (xs ! j) \<longrightarrow> j = i"
  shows "findIndex P xs = Some i"
proof -
  have "\<forall>j<i. \<not> P (xs ! j)"
  proof (intro allI impI)
    fix j assume "j < i"
    hence "j < length xs" and "j \<noteq> i" using assms(1) by simp_all
    with assms(3) show "\<not> P (xs ! j)" by blast
  qed
  with assms(1,2) show ?thesis by (simp add: findIndex_Some_iff)
qed

lemma await_Inr_iff:
  "await m f w = (Inr b, w') \<longleftrightarrow> (\<exists>a w1. m w = (Inr a, w1) \<and> f a w1 = (Inr b, w'))"
  by (cases "m w"; cases "fst (m w)") (simp_all add: await_def)

lemma return_iff: "return a w = (r, w') \<longleftrightarrow> r = Inr a \<and> w' = w"
  by (auto simp: return_def)

lemma throw_iff: "throw e w = (r, w') \<longleftrightarrow> r = Inl e \<and> w' = w"
  by (auto simp: throw_def)

lemma new_Date_iff: "new_Date w = (r, w') \<longleftrightarrow> r = Inr (clock w (step w)) \<and> w' = tick w"
  by (auto simp: new_Date_def)

lemma store_op_Inr_iff:
  "store_op f w = (Inr a, w') \<longleftrightarrow> \<not> fault w (step w) \<and> f (tick w) = (Inr a, w')"
  by (simp add: store_op_def)

lemma tick_simps:
  "MeetingStats_coll (tick w) = MeetingStats_coll w"
  "MeetingRecord_coll (tick w) = MeetingRecord_coll w"
  "step (tick w) = Suc (step w)"
  "clock (tick w) = clock w"
  "fault (tick w) = fault w"
  by (simp_all add: tick_def)

lemma recordMeetingEnd_null:
  assumes "\<forall>d\<in>set (MeetingRecord_coll w). \<not> record_filter uid mid active d"
  shows "snd (recordMeetingEnd uid mid count w) = tick w
         \<and> (\<not> fault w (step w) \<longrightarrow> fst (recordMeetingEnd uid mid count w) = Inr None)
         \<and> (fault w (step w) \<longrightarrow> fst (recordMeetingEnd uid mid count w) = Inl StoreError)"
proof -
  from assms have "findIndex (record_filter uid mid active) (MeetingRecord_coll w) = None"
    by (simp add: findIndex_None_iff)
  thus ?thesis
    by (simp add: recordMeetingEnd_def MeetingRecord_findOne_def await_def store_op_def
        return_def tick_simps Let_def)
qed


lemma findIndex_update:
  assumes "findIndex P xs = Some i" and "P y"
  shows "findIndex P (xs[i := y]) = Some i"
  using assms by (simp add: findIndex_Some_iff)

lemma findIndex_append_new:
  assumes "findIndex P xs = None" and "P y"
  shows "findIndex P (xs @ [y]) = Some (length xs)"
proof -
  from assms(1) have "\<forall>j<length xs. \<not> P (xs ! j)"
    by (simp add: findIndex_None_iff)
  with assms(2) show ?thesis by (simp add: findIndex_Some_iff nth_append)
qed

lemma new_MeetingStats_iff:
  "new_MeetingStats uid w = (r, w') \<longleftrightarrow>
     r = Inr \<lparr>totalCalls = 0, totalDuration = 0, totalParticipants = 0, meetingsScheduled = 0,
              userId = uid, lastMonthStats = zero_counters,
              lastUpdated = clock w (step w), createdAt = clock w (Suc (step w))\<rparr>
     \<and> w' = tick (tick w)"
  by (auto simp: new_MeetingStats_def await_def new_Date_def return_def tick_simps)

lemma getUserStats_Inr:
  assumes "getUserStats uid w = (Inr (sid, stats), w')"
  shows "MeetingRecord_coll w' = MeetingRecord_coll w"
    and "clock w' = clock w" and "fault w' = fault w" and "step w < step w'"
    and "findIndex (\<lambda>d. MeetingStats.userId d = uid) (MeetingStats_coll w') = Some sid"
    and "MeetingStats_coll w' ! sid = stats"
    and "MeetingStats.userId stats = uid"
    and "totalCalls stats = counter_of totalCalls w uid"
    and "totalDuration stats = counter_of totalDuration w uid"
    and "totalParticipants stats = counter_of totalParticipants w uid"
    and "meetingsScheduled stats = counter_of meetingsScheduled w uid"
proof -
  let ?P = "\<lambda>d. MeetingStats.userId d = uid"
  have "MeetingRecord_coll w' = MeetingRecord_coll w \<and> clock w' = clock w \<and> fault w' = fault w
        \<and> step w < step w' \<and> findIndex ?P (MeetingStats_coll w') = Some sid
        \<and> MeetingStats_coll w' ! sid = stats \<and> MeetingStats.userId stats = uid
        \<and> totalCalls stats = counter_of totalCalls w uid
        \<and> totalDuration stats = counter_of totalDuration w uid
        \<and> totalParticipants stats = counter_of totalParticipants w uid
        \<and> meetingsScheduled stats = counter_of meetingsScheduled w uid"
  proof (cases "findIndex ?P (MeetingStats_coll w)")
    case None
    hence fresh: "\<forall>d\<in>set (MeetingStats_coll w). MeetingStats.userId d \<noteq> uid"
      by (simp add: findIndex_None_iff)
    from assms None fresh show ?thesis
      by (auto simp: getUserStats_def MeetingStats_findOne_def MeetingStats_insert_def
          await_Inr_iff store_op_Inr_iff return_iff new_MeetingStats_iff tick_simps
          counter_of_def stats_of_def findIndex_append_new split: if_splits)
  next
    case (Some i)
    hence "MeetingStats.userId (MeetingStats_coll w ! i) = uid"
      by (simp add: findIndex_Some_iff)
    with assms Some show ?thesis
      by (auto simp: getUserStats_def MeetingStats_findOne_def loaded_def
          await_Inr_iff store_op_Inr_iff return_iff tick_simps counter_of_def stats_of_def)
  qed
  thus "MeetingRecord_coll w' = MeetingRecord_coll w"
    and "clock w' = clock w" and "fault w' = fault w" and "step w < step w'"
    and "findIndex (\<lambda>d. MeetingStats.userId d = uid) (MeetingStats_coll w') = Some sid"
    and "MeetingStats_coll w' ! sid = stats"
    and "MeetingStats.userId stats = uid"
    and "totalCalls stats = counter_of totalCalls w uid"
    and "totalDuration stats = counter_of totalDuration w uid"
    and "totalParticipants stats = counter_of totalParticipants w uid"
    and "meetingsScheduled stats = counter_of meetingsScheduled w uid"
    by blast+
qed

lemma getUserStats_InrD:
  assumes "getUserStats uid w = (Inr (sid, stats), w')"
  shows "MeetingRecord_coll w' = MeetingRecord_coll w \<and> clock w' = clock w \<and> fault w' = fault w
        \<and> step w < step w' \<and> findIndex (\<lambda>d. MeetingStats.userId d = uid) (MeetingStats_coll w') = Some sid
        \<and> MeetingStats_coll w' ! sid = stats \<and> MeetingStats.userId stats = uid
        \<and> totalCalls stats = counter_of totalCalls w uid
        \<and> totalDuration stats = counter_of totalDuration w uid
        \<and> totalParticipants stats = counter_of totalParticipants w uid
        \<and> meetingsScheduled stats = counter_of meetingsScheduled w uid"
  using getUserStats_Inr [OF assms] by simp

lemma counter_of_updated:
  assumes "findIndex (\<lambda>d. MeetingStats.userId d = uid) xs = Some sid"
    and "MeetingStats.userId s = uid"
    and "MeetingStats_coll w' = xs[sid := s]"
  shows "counter_of f w' uid = f s"
proof -
  have "findIndex (\<lambda>d. MeetingStats.userId d = uid) (xs[sid := s]) = Some sid"
    using assms(1,2) by (rule findIndex_update)
  moreover have "sid < length xs"
    using assms(1) by (simp add: findIndex_Some_iff)
  ultimately show ?thesis by (simp add: counter_of_def stats_of_def assms(3))
qed

lemma counter_of_cong:
  "MeetingStats_coll w = MeetingStats_coll v \<Longrightarrow> counter_of f w uid = counter_of f v uid"
  by (simp add: counter_of_def stats_of_def)

lemma recordMeetingEnd_Inr:
  assumes i: "i < length (MeetingRecord_coll w)"
    and m: "record_filter uid mid active (MeetingRecord_coll w ! i)"
    and u: "\<forall>j<length (MeetingRecord_coll w). record_filter uid mid active (MeetingRecord_coll w ! j) \<longrightarrow> j = i"
    and ok: "recordMeetingEnd uid mid count_arg w = (Inr r, w')"
  shows "r = Some (i, completed_at (MeetingRecord_coll w ! i) (clock w (Suc (step w))) (or_default 1 count_arg))
       \<and> MeetingRecord_coll w' = (MeetingRecord_coll w)
             [i := completed_at (MeetingRecord_coll w ! i) (clock w (Suc (step w))) (or_default 1 count_arg)]
       \<and> counter_of totalDuration w' uid = counter_of totalDuration w uid
             + duration (completed_at (MeetingRecord_coll w ! i) (clock w (Suc (step w))) (or_default 1 count_arg))
       \<and> counter_of totalParticipants w' uid = counter_of totalParticipants w uid + or_default 1 count_arg
       \<and> counter_of totalCalls w' uid = counter_of totalCalls w uid
       \<and> counter_of meetingsScheduled w' uid = counter_of meetingsScheduled w uid"
proof -
  let ?new = "completed_at (MeetingRecord_coll w ! i) (clock w (Suc (step w))) (or_default 1 count_arg)"
  let ?n = "or_default 1 count_arg"
  have fnd: "findIndex (record_filter uid mid active) (MeetingRecord_coll w) = Some i"
    using i m u by (rule findIndex_unique)
  from ok fnd obtain sid stats w2 w3 where
    g: "getUserStats uid w2 = (Inr (sid, stats), w3)"
    and s2: "MeetingStats_coll w2 = MeetingStats_coll w"
    and r2: "MeetingRecord_coll w2 = (MeetingRecord_coll w)[i := ?new]"
    and r: "r = Some (i, ?new)"
    and r': "MeetingRecord_coll w' = MeetingRecord_coll w3"
    and s': "MeetingStats_coll w' = (MeetingStats_coll w3)
               [sid := stats\<lparr>totalDuration := totalDuration stats + duration ?new,
                              totalParticipants := totalParticipants stats + ?n,
                              lastUpdated := clock w3 (step w3)\<rparr>]"
    by (auto simp: recordMeetingEnd_def Let_def MeetingRecord_findOne_def MeetingRecord_update_def
        MeetingStats_update_def await_Inr_iff store_op_Inr_iff return_iff new_Date_iff tick_simps
        loaded_def completed_at_def)
  note D = getUserStats_InrD [OF g]
  have cw: "\<And>f. counter_of f w2 uid = counter_of f w uid"
    using s2 by (rule counter_of_cong)
  have rc: "MeetingRecord_coll w' = (MeetingRecord_coll w)[i := ?new]"
    using D r' r2 by simp
  from D have fi: "findIndex (\<lambda>d. MeetingStats.userId d = uid) (MeetingStats_coll w3) = Some sid"
    and us: "MeetingStats.userId stats = uid" by simp_all
  note upd = counter_of_updated [OF fi _ s']
  have "counter_of totalDuration w' uid = counter_of totalDuration w uid + duration ?new"
    using D cw us by (simp add: upd)
  moreover have "counter_of totalParticipants w' uid = counter_of totalParticipants w uid + ?n"
    using D cw us by (simp add: upd)
  moreover have "counter_of totalCalls w' uid = counter_of totalCalls w uid"
    using D cw us by (simp add: upd)
  moreover have "counter_of meetingsScheduled w' uid = counter_of meetingsScheduled w uid"
    using D cw us by (simp add: upd)
  ultimately show ?thesis using r rc by simp
qed

text \<open>A clock that went backwards by two minutes leaves a duration of -2.\<close>

lemma completed_at_not_clamped:
  "duration (completed_at (example_record\<lparr>startTime := 120000\<rparr>) 0 1) = - 2"
  by (simp add: completed_at_def js_round_unique)

lemma await_Inl_iff:
  "await m f w = (Inl e, w') \<longleftrightarrow>
     m w = (Inl e, w') \<or> (\<exists>a w1. m w = (Inr a, w1) \<and> f a w1 = (Inl e, w'))"
  by (cases "m w"; cases "fst (m w)") (simp_all add: await_def)

lemma store_op_Inl_iff:
  "store_op f w = (Inl e, w') \<longleftrightarrow>
     (fault w (step w) \<and> e = StoreError \<and> w' = tick w)
     \<or> (\<not> fault w (step w) \<and> f (tick w) = (Inl e, w'))"
  by (auto simp: store_op_def)

lemma getUserStats_Inl:
  assumes "getUserStats uid w = (Inl e, w')"
  shows "\<exists>k\<ge>step w. fault w k"
proof (cases "findIndex (\<lambda>d. MeetingStats.userId d = uid) (MeetingStats_coll w)")
  case None
  hence fresh: "\<forall>d\<in>set (MeetingStats_coll w). MeetingStats.userId d \<noteq> uid"
    by (simp add: findIndex_None_iff)
  have "fault w (step w) \<or> fault w (Suc (Suc (Suc (step w))))"
    using assms None fresh
    by (auto simp: getUserStats_def MeetingStats_findOne_def MeetingStats_insert_def
        await_Inl_iff store_op_Inl_iff store_op_Inr_iff return_iff new_MeetingStats_iff tick_simps
        split: if_splits)
  thus ?thesis by (metis le_refl le_SucI)
next
  case (Some i)
  with assms have "fault w (step w)"
    by (auto simp: getUserStats_def MeetingStats_findOne_def
        await_Inl_iff store_op_Inl_iff store_op_Inr_iff return_iff tick_simps)
  thus ?thesis by blast
qed


lemma fobf_I:
  assumes "\<And>w e w'. m w = (Inl e, w') \<Longrightarrow> \<exists>k\<ge>step w. fault w k"
    and "\<And>w a w'. m w = (Inr a, w') \<Longrightarrow> fault w' = fault w \<and> step w \<le> step w'"
  shows "fails_only_by_fault m"
  unfolding fails_only_by_fault_def using assms by (auto split: sum.splits)

lemma fobf_Inl: "fails_only_by_fault m \<Longrightarrow> m w = (Inl e, w') \<Longrightarrow> \<exists>k\<ge>step w. fault w k"
  unfolding fails_only_by_fault_def by fastforce

lemma fobf_Inr:
  "fails_only_by_fault m \<Longrightarrow> m w = (Inr a, w') \<Longrightarrow> fault w' = fault w \<and> step w \<le> step w'"
  unfolding fails_only_by_fault_def by fastforce

lemma fobf_return: "fails_only_by_fault (return a)"
  by (rule fobf_I) (simp_all add: return_iff)

lemma fobf_new_Date: "fails_only_by_fault new_Date"
  by (rule fobf_I) (simp_all add: new_Date_iff tick_simps)

lemma fobf_await:
  assumes m: "fails_only_by_fault m" and f: "\<And>a. fails_only_by_fault (f a)"
  shows "fails_only_by_fault (await m f)"
proof (rule fobf_I)
  fix w e w' assume "await m f w = (Inl e, w')"
  then consider "m w = (Inl e, w')"
    | a w1 where "m w = (Inr a, w1)" "f a w1 = (Inl e, w')"
    by (auto simp: await_Inl_iff)
  then show "\<exists>k\<ge>step w. fault w k"
  proof cases
    case 1
    with m show ?thesis by (rule fobf_Inl)
  next
    case 2
    from fobf_Inr [OF m 2(1)] have same: "fault w1 = fault w" and le: "step w \<le> step w1"
      by simp_all
    from fobf_Inl [OF f 2(2)] obtain k where "step w1 \<le> k" "fault w1 k" by blast
    with same le have "step w \<le> k \<and> fault w k" by simp
    thus ?thesis by blast
  qed
next
  fix w b w' assume "await m f w = (Inr b, w')"
  then obtain a w1 where 1: "m w = (Inr a, w1)" and 2: "f a w1 = (Inr b, w')"
    by (auto simp: await_Inr_iff)
  from fobf_Inr [OF m 1] fobf_Inr [OF f 2]
  show "fault w' = fault w \<and> step w \<le> step w'" by simp
qed

lemma fobf_store_op:
  assumes "\<And>w. \<exists>a. f w = (Inr a, w\<lparr>MeetingStats_coll := s w, MeetingRecord_coll := r w\<rparr>)"
  shows "fails_only_by_fault (store_op f)"
proof (rule fobf_I)
  fix w e w' assume "store_op f w = (Inl e, w')"
  moreover from assms obtain a where "f (tick w) = (Inr a, (tick w)\<lparr>MeetingStats_coll := s (tick w), MeetingRecord_coll := r (tick w)\<rparr>)"
    by blast
  ultimately have "fault w (step w)" by (auto simp: store_op_Inl_iff)
  thus "\<exists>k\<ge>step w. fault w k" by blast
next
  fix w a w' assume "store_op f w = (Inr a, w')"
  moreover from assms obtain b where "f (tick w) = (Inr b, (tick w)\<lparr>MeetingStats_coll := s (tick w), MeetingRecord_coll := r (tick w)\<rparr>)"
    by blast
  ultimately show "fault w' = fault w \<and> step w \<le> step w'"
    by (auto simp: store_op_Inr_iff tick_simps)
qed

lemma fobf_MeetingStats_update: "fails_only_by_fault (MeetingStats_update h)"
  unfolding MeetingStats_update_def
  by (rule fobf_store_op [where s = "\<lambda>w. (MeetingStats_coll w)[fst h := snd h]" and r = MeetingRecord_coll]) simp

lemma fobf_MeetingRecord_update: "fails_only_by_fault (MeetingRecord_update h)"
  unfolding MeetingRecord_update_def
  by (rule fobf_store_op [where r = "\<lambda>w. (MeetingRecord_coll w)[fst h := snd h]" and s = MeetingStats_coll]) simp

lemma fobf_MeetingRecord_findOne: "fails_only_by_fault (MeetingRecord_findOne uid mid st)"
  unfolding MeetingRecord_findOne_def
  by (rule fobf_store_op [where r = MeetingRecord_coll and s = MeetingStats_coll]) simp

lemma fobf_MeetingStats_find: "fails_only_by_fault MeetingStats_find"
  unfolding MeetingStats_find_def
  by (rule fobf_store_op [where r = MeetingRecord_coll and s = MeetingStats_coll]) simp

lemma fobf_MeetingRecord_find_recent: "fails_only_by_fault (MeetingRecord_find_recent uid n)"
  unfolding MeetingRecord_find_recent_def
  by (rule fobf_store_op [where r = MeetingRecord_coll and s = MeetingStats_coll]) simp

lemma fobf_MeetingRecord_insert:
  "meetingId doc \<noteq> [] \<Longrightarrow> fails_only_by_fault (MeetingRecord_insert doc)"
  unfolding MeetingRecord_insert_def
  by (simp, rule fobf_store_op [where r = "\<lambda>w. MeetingRecord_coll w @ [doc]" and s = MeetingStats_coll]) simp

lemma fobf_getUserStats: "fails_only_by_fault (getUserStats uid)"
proof (rule fobf_I)
  fix w e w' assume "getUserStats uid w = (Inl e, w')"
  thus "\<exists>k\<ge>step w. fault w k" by (rule getUserStats_Inl)
next
  fix w a w' assume "getUserStats uid w = (Inr a, w')"
  hence "getUserStats uid w = (Inr (fst a, snd a), w')" by simp
  from getUserStats_InrD [OF this] show "fault w' = fault w \<and> step w \<le> step w'" by simp
qed

lemmas fobf_intros = fobf_await fobf_return fobf_new_Date fobf_getUserStats
  fobf_MeetingStats_update fobf_MeetingRecord_update fobf_MeetingRecord_findOne
  fobf_MeetingStats_find fobf_MeetingRecord_find_recent

lemma fobf_new_MeetingRecord: "fails_only_by_fault (new_MeetingRecord uid mid title start sched st)"
  unfolding new_MeetingRecord_def by (intro fobf_intros)

lemma new_MeetingRecord_meetingId:
  "new_MeetingRecord uid mid title start sched st w = (Inr doc, w') \<Longrightarrow> meetingId doc = mid"
  by (auto simp: new_MeetingRecord_def await_Inr_iff new_Date_iff return_iff)

lemma fobf_recordMeetingEnd: "fails_only_by_fault (recordMeetingEnd uid mid count_arg)"
  unfolding recordMeetingEnd_def Let_def
  by (intro fobf_intros) (auto split: option.splits intro!: fobf_intros)

lemma fobf_getFormattedStats: "fails_only_by_fault (getFormattedStats uid)"
  unfolding getFormattedStats_def Let_def
  by (intro fobf_intros) (auto intro!: fobf_intros)

lemma fobf_getRecentMeetings: "fails_only_by_fault (getRecentMeetings tls uid limit_arg)"
  unfolding getRecentMeetings_def Let_def
  by (intro fobf_intros)

lemma succeeds_if_reachable:
  assumes "fails_only_by_fault m" and "reachable_from w (step w)"
  shows "\<exists>a w'. m w = (Inr a, w')"
proof (cases "m w")
  case (Pair r w')
  show ?thesis
  proof (cases r)
    case (Inl e)
    with Pair assms(1) have "\<exists>k\<ge>step w. fault w k" by (auto dest: fobf_Inl)
    with assms(2) show ?thesis by (auto simp: reachable_from_def)
  next
    case (Inr a)
    with Pair show ?thesis by blast
  qed
qed


lemma reachable_empty_world: "reachable_from empty_world n"
  by (simp add: reachable_from_def empty_world_def no_fault_def)

lemma reachable_started_world: "reachable_from started_world n"
  by (simp add: reachable_from_def started_world_def no_fault_def)

text \<open>
  C2. Let exactly one record of the user and the meeting be active. When the store answers
  every round trip, \<open>recordMeetingEnd\<close> returns. Whenever it returns, it returns that
  record with \<open>endTime\<close> set to the time read after the lookup, \<open>duration\<close> set to the
  rounded number of minutes between \<open>startTime\<close> and \<open>endTime\<close> (not clamped),
  \<open>participantCount\<close> set to the given value and \<open>status\<close> set to completed; the
  collection holds the updated record in its place; the user's \<open>totalDuration\<close> has grown
  by the duration and \<open>totalParticipants\<close> by the participant count, and the two other
  counters are as before.
\<close>

theorem recordMeetingEnd_completes:
  assumes "i < length (MeetingRecord_coll w)"
    and "record_filter uid mid active (MeetingRecord_coll w ! i)"
    and "\<forall>j<length (MeetingRecord_coll w).
           record_filter uid mid active (MeetingRecord_coll w ! j) \<longrightarrow> j = i"
  shows "(reachable_from w (step w) \<longrightarrow>
            (\<exists>r w'. recordMeetingEnd uid mid count_arg w = (Inr r, w')))
       \<and> (\<forall>r w'. recordMeetingEnd uid mid count_arg w = (Inr r, w') \<longrightarrow>
            r = Some (i, completed_at (MeetingRecord_coll w ! i) (clock w (Suc (step w)))
                          (or_default 1 count_arg))
          \<and> MeetingRecord_coll w' = (MeetingRecord_coll w)
               [i := completed_at (MeetingRecord_coll w ! i) (clock w (Suc (step w)))
                       (or_default 1 count_arg)]
          \<and> counter_of totalDuration w' uid = counter_of totalDuration w uid
               + duration (completed_at (MeetingRecord_coll w ! i) (clock w (Suc (step w)))
                             (or_default 1 count_arg))
          \<and> counter_of totalParticipants w' uid
               = counter_of totalParticipants w uid + or_default 1 count_arg
          \<and> counter_of totalCalls w' uid = counter_of totalCalls w uid
          \<and> counter_of meetingsScheduled w' uid = counter_of meetingsScheduled w uid)"
proof (intro conjI impI allI)
  assume "reachable_from w (step w)"
  with fobf_recordMeetingEnd
  show "\<exists>r w'. recordMeetingEnd uid mid count_arg w = (Inr r, w')"
    by (rule succeeds_if_reachable)
qed (use recordMeetingEnd_Inr [OF assms] in blast)+

text \<open>
  The meeting \<open>m1\<close> started at time 0 ends at 3900000 ms with 3 participants: 65 minutes.
\<close>

theorem recordMeetingEnd_completes_witness:
  "\<exists>w'. recordMeetingEnd 1 ''m1'' (Some 3) started_world
           = (Inr (Some (0, example_record\<lparr>endTime := Some 3900000, duration := 65,
                                           participantCount := 3, status := completed\<rparr>)), w')
        \<and> MeetingRecord_coll w' = [example_record\<lparr>endTime := Some 3900000, duration := 65,
                                           participantCount := 3, status := completed\<rparr>]
        \<and> counter_of totalDuration w' 1 = 65
        \<and> counter_of totalParticipants w' 1 = 3"
proof -
  have d: "completed_at example_record 3900000 3
             = example_record\<lparr>endTime := Some 3900000, duration := 65,
                               participantCount := 3, status := completed\<rparr>"
    by (simp add: completed_at_def example_record_def js_round_unique)
  have c: "counter_of totalDuration started_world 1 = 0"
          "counter_of totalParticipants started_world 1 = 0"
    by (simp_all add: counter_of_def stats_of_def started_world_def example_stats_def)
  have h1: "0 < length (MeetingRecord_coll started_world)"
    and h2: "record_filter 1 ''m1'' active (MeetingRecord_coll started_world ! 0)"
    and h3: "\<forall>j<length (MeetingRecord_coll started_world).
               record_filter 1 ''m1'' active (MeetingRecord_coll started_world ! j) \<longrightarrow> j = 0"
    by (simp_all add: started_world_def example_record_def record_filter_def)
  note T = recordMeetingEnd_completes [OF h1 h2 h3, of "Some 3"]
  from T reachable_started_world obtain r w'
    where ok: "recordMeetingEnd 1 ''m1'' (Some 3) started_world = (Inr r, w')" by blast
  from T ok have
    "r = Some (0, completed_at (MeetingRecord_coll started_world ! 0)
                    (clock started_world (Suc (step started_world))) (or_default 1 (Some 3)))
     \<and> MeetingRecord_coll w' = (MeetingRecord_coll started_world)
          [0 := completed_at (MeetingRecord_coll started_world ! 0)
                  (clock started_world (Suc (step started_world))) (or_default 1 (Some 3))]
     \<and> counter_of totalDuration w' 1 = counter_of totalDuration started_world 1
          + duration (completed_at (MeetingRecord_coll started_world ! 0)
                        (clock started_world (Suc (step started_world))) (or_default 1 (Some 3)))
     \<and> counter_of totalParticipants w' 1
          = counter_of totalParticipants started_world 1 + or_default 1 (Some 3)"
    by blast
  moreover have "MeetingRecord_coll started_world ! 0 = example_record"
    "clock started_world (Suc (step started_world)) = 3900000"
    "MeetingRecord_coll started_world = [example_record]"
    by (simp_all add: started_world_def example_clock_def)
  ultimately show ?thesis using ok c d
    by (simp add: or_default_def)
qed

text \<open>
  C3. When no record of the user and the meeting is active, \<open>recordMeetingEnd\<close> returns
  null (provided the store answers the lookup) and leaves both collections as they were.
\<close>

theorem recordMeetingEnd_no_active_record:
  assumes "\<forall>d\<in>set (MeetingRecord_coll w). \<not> record_filter uid mid active d"
  shows "(\<not> fault w (step w) \<longrightarrow> fst (recordMeetingEnd uid mid count_arg w) = Inr None)
       \<and> MeetingRecord_coll (snd (recordMeetingEnd uid mid count_arg w)) = MeetingRecord_coll w
       \<and> MeetingStats_coll (snd (recordMeetingEnd uid mid count_arg w)) = MeetingStats_coll w"
  using recordMeetingEnd_null [OF assms, of count_arg] by (simp add: tick_simps)

theorem recordMeetingEnd_no_active_record_witness:
  "fst (recordMeetingEnd 1 ''m2'' (Some 3) started_world) = Inr None
   \<and> MeetingRecord_coll (snd (recordMeetingEnd 1 ''m2'' (Some 3) started_world)) = [example_record]
   \<and> MeetingStats_coll (snd (recordMeetingEnd 1 ''m2'' (Some 3) started_world)) = [example_stats]"
proof -
  have h: "\<forall>d\<in>set (MeetingRecord_coll started_world). \<not> record_filter 1 ''m2'' active d"
    by (simp add: started_world_def example_record_def record_filter_def)
  have "\<not> fault started_world (step started_world)"
    by (simp add: started_world_def no_fault_def)
  with recordMeetingEnd_no_active_record [OF h, of "Some 3"] show ?thesis
    by (simp add: started_world_def)
qed

lemma fobf_await_Inr:
  assumes m: "fails_only_by_fault m"
    and f: "\<And>a w w1. m w = (Inr a, w1) \<Longrightarrow> fails_only_by_fault (f a)"
  shows "fails_only_by_fault (await m f)"
proof (rule fobf_I)
  fix w e w' assume "await m f w = (Inl e, w')"
  then consider "m w = (Inl e, w')"
    | a w1 where "m w = (Inr a, w1)" "f a w1 = (Inl e, w')"
    by (auto simp: await_Inl_iff)
  then show "\<exists>k\<ge>step w. fault w k"
  proof cases
    case 1
    with m show ?thesis by (rule fobf_Inl)
  next
    case 2
    from fobf_Inr [OF m 2(1)] have same: "fault w1 = fault w" and le: "step w \<le> step w1"
      by simp_all
    from fobf_Inl [OF f [OF 2(1)] 2(2)] obtain k where "step w1 \<le> k" "fault w1 k" by blast
    with same le have "step w \<le> k \<and> fault w k" by simp
    thus ?thesis by blast
  qed
next
  fix w b w' assume "await m f w = (Inr b, w')"
  then obtain a w1 where 1: "m w = (Inr a, w1)" and 2: "f a w1 = (Inr b, w')"
    by (auto simp: await_Inr_iff)
  from fobf_Inr [OF m 1] fobf_Inr [OF f [OF 1] 2]
  show "fault w' = fault w \<and> step w \<le> step w'" by simp
qed

lemma fobf_recordMeetingStart:
  assumes "mid \<noteq> []"
  shows "fails_only_by_fault (recordMeetingStart uid mid title_arg sched_arg)"
  unfolding recordMeetingStart_def Let_def
proof (intro fobf_await_Inr fobf_new_Date fobf_new_MeetingRecord)
  fix a w w1 aa wa w1a
  assume "new_MeetingRecord uid mid (or_default ''Video Call'' title_arg) a
            (or_default False sched_arg) active wa = (Inr aa, w1a)"
  hence "meetingId aa = mid" by (rule new_MeetingRecord_meetingId)
  with assms show "fails_only_by_fault (MeetingRecord_insert aa)"
    by (simp add: fobf_MeetingRecord_insert)
qed (auto intro!: fobf_intros)


lemma MeetingRecord_insert_Inr_iff:
  "MeetingRecord_insert doc w = (Inr rid, w') \<longleftrightarrow>
     meetingId doc \<noteq> [] \<and> \<not> fault w (step w) \<and> rid = length (MeetingRecord_coll w)
     \<and> w' = (tick w)\<lparr>MeetingRecord_coll := MeetingRecord_coll w @ [doc]\<rparr>"
  by (cases "meetingId doc = []")
     (auto simp: MeetingRecord_insert_def throw_iff store_op_Inr_iff tick_simps)

lemma new_MeetingRecord_iff:
  "new_MeetingRecord uid mid title start sched st w = (r, w') \<longleftrightarrow>
     r = Inr \<lparr>MeetingRecord.userId = uid, meetingId = mid, meetingTitle = title,
              startTime = start, endTime = None, duration = 0, participantCount = 1,
              isScheduled = sched, status = st, MeetingRecord.createdAt = clock w (step w)\<rparr>
     \<and> w' = tick w"
  by (auto simp: new_MeetingRecord_def await_def new_Date_def return_def)

lemma MeetingStats_update_Inr_iff:
  "MeetingStats_update h w = (Inr u, w') \<longleftrightarrow>
     \<not> fault w (step w)
     \<and> w' = (tick w)\<lparr>MeetingStats_coll := (MeetingStats_coll w)[fst h := snd h]\<rparr>"
  by (auto simp: MeetingStats_update_def store_op_Inr_iff tick_simps)

lemma recordMeetingStart_Inr:
  assumes ok: "recordMeetingStart uid mid title_arg sched_arg w = (Inr (rid, doc), w')"
  shows "doc = \<lparr>MeetingRecord.userId = uid, meetingId = mid,
                 meetingTitle = or_default ''Video Call'' title_arg,
                 startTime = clock w (step w), endTime = None, duration = 0,
                 participantCount = 1, isScheduled = or_default False sched_arg,
                 status = active, MeetingRecord.createdAt = clock w (Suc (step w))\<rparr>
       \<and> rid = length (MeetingRecord_coll w)
       \<and> MeetingRecord_coll w' = MeetingRecord_coll w @ [doc]
       \<and> counter_of totalCalls w' uid = counter_of totalCalls w uid + 1
       \<and> counter_of meetingsScheduled w' uid
            = counter_of meetingsScheduled w uid + (if or_default False sched_arg then 1 else 0)
       \<and> counter_of totalDuration w' uid = counter_of totalDuration w uid
       \<and> counter_of totalParticipants w' uid = counter_of totalParticipants w uid
       \<and> (\<exists>s t. stats_of w' uid = Some s \<and> lastUpdated s = clock w t
                 \<and> step w \<le> t \<and> t < step w')"
proof -
  let ?doc = "\<lparr>MeetingRecord.userId = uid, meetingId = mid,
                 meetingTitle = or_default ''Video Call'' title_arg,
                 startTime = clock w (step w), endTime = None, duration = 0,
                 participantCount = 1, isScheduled = or_default False sched_arg,
                 status = active, MeetingRecord.createdAt = clock w (Suc (step w))\<rparr>"
  let ?b = "or_default False sched_arg"
  from ok obtain sid stats w2 w3 s' where
    g: "getUserStats uid w2 = (Inr (sid, stats), w3)"
    and s2: "MeetingStats_coll w2 = MeetingStats_coll w"
    and r2: "MeetingRecord_coll w2 = MeetingRecord_coll w @ [?doc]"
    and c2: "clock w2 = clock w" and st2: "step w \<le> step w2"
    and d: "doc = ?doc" and rid: "rid = length (MeetingRecord_coll w)"
    and r': "MeetingRecord_coll w' = MeetingRecord_coll w3"
    and st': "step w' = Suc (Suc (step w3))"
    and s'def: "s' = (if ?b then stats\<lparr>totalCalls := totalCalls stats + 1,
                                        meetingsScheduled := meetingsScheduled stats + 1,
                                        lastUpdated := clock w3 (step w3)\<rparr>
                      else stats\<lparr>totalCalls := totalCalls stats + 1,
                                 lastUpdated := clock w3 (step w3)\<rparr>)"
    and s': "MeetingStats_coll w' = (MeetingStats_coll w3)[sid := s']"
    by (cases ?b)
       (auto simp: recordMeetingStart_def Let_def MeetingRecord_insert_Inr_iff
          new_MeetingRecord_iff MeetingStats_update_Inr_iff await_Inr_iff return_iff new_Date_iff
          tick_simps)
  note D = getUserStats_InrD [OF g]
  have cw: "\<And>f. counter_of f w2 uid = counter_of f w uid"
    using s2 by (rule counter_of_cong)
  from D have fi: "findIndex (\<lambda>d. MeetingStats.userId d = uid) (MeetingStats_coll w3) = Some sid"
    and us: "MeetingStats.userId stats = uid" by simp_all
  have us': "MeetingStats.userId s' = uid" using us by (simp add: s'def)
  note upd = counter_of_updated [OF fi us' s']
  have so: "stats_of w' uid = Some s'"
  proof -
    have "findIndex (\<lambda>d. MeetingStats.userId d = uid) ((MeetingStats_coll w3)[sid := s']) = Some sid"
      using fi us' by (rule findIndex_update)
    moreover have "sid < length (MeetingStats_coll w3)"
      using fi by (simp add: findIndex_Some_iff)
    ultimately show ?thesis by (simp add: stats_of_def s')
  qed
  have lu: "lastUpdated s' = clock w (step w3)" using D c2 by (simp add: s'def)
  have "step w \<le> step w3 \<and> step w3 < step w'" using D st2 st' by simp
  with so lu have stamp: "\<exists>s t. stats_of w' uid = Some s \<and> lastUpdated s = clock w t
                 \<and> step w \<le> t \<and> t < step w'" by blast
  have "counter_of totalCalls w' uid = counter_of totalCalls w uid + 1"
    using D cw by (simp add: upd s'def)
  moreover have "counter_of meetingsScheduled w' uid
            = counter_of meetingsScheduled w uid + (if ?b then 1 else 0)"
    using D cw by (simp add: upd s'def)
  moreover have "counter_of totalDuration w' uid = counter_of totalDuration w uid"
    using D cw by (simp add: upd s'def)
  moreover have "counter_of totalParticipants w' uid = counter_of totalParticipants w uid"
    using D cw by (simp add: upd s'def)
  moreover have "MeetingRecord_coll w' = MeetingRecord_coll w @ [doc]"
    using D r' r2 d by simp
  ultimately show ?thesis using d rid stamp by simp
qed


text \<open>
  C4. When the meeting id is not empty and the store answers every round trip,
  \<open>recordMeetingStart\<close> returns. Whenever it returns, it returns the record it created:
  active, started at the time read when the call began, appended to the collection; the
  user's \<open>totalCalls\<close> has grown by one, \<open>meetingsScheduled\<close> by one exactly when
  \<open>isScheduled\<close> is true, the two other counters are as before, and \<open>lastUpdated\<close> is a
  time read during the call.
\<close>

theorem recordMeetingStart_records:
  "(mid \<noteq> [] \<and> reachable_from w (step w) \<longrightarrow>
      (\<exists>h w'. recordMeetingStart uid mid title_arg sched_arg w = (Inr h, w')))
   \<and> (\<forall>rid doc w'. recordMeetingStart uid mid title_arg sched_arg w = (Inr (rid, doc), w') \<longrightarrow>
         doc = \<lparr>MeetingRecord.userId = uid, meetingId = mid,
                 meetingTitle = or_default ''Video Call'' title_arg,
                 startTime = clock w (step w), endTime = None, duration = 0,
                 participantCount = 1, isScheduled = or_default False sched_arg,
                 status = active, MeetingRecord.createdAt = clock w (Suc (step w))\<rparr>
       \<and> rid = length (MeetingRecord_coll w)
       \<and> MeetingRecord_coll w' = MeetingRecord_coll w @ [doc]
       \<and> counter_of totalCalls w' uid = counter_of totalCalls w uid + 1
       \<and> counter_of meetingsScheduled w' uid
            = counter_of meetingsScheduled w uid + (if or_default False sched_arg then 1 else 0)
       \<and> counter_of totalDuration w' uid = counter_of totalDuration w uid
       \<and> counter_of totalParticipants w' uid = counter_of totalParticipants w uid
       \<and> (\<exists>s t. stats_of w' uid = Some s \<and> lastUpdated s = clock w t
                 \<and> step w \<le> t \<and> t < step w'))"
proof (intro conjI impI allI)
  assume "mid \<noteq> [] \<and> reachable_from w (step w)"
  hence "fails_only_by_fault (recordMeetingStart uid mid title_arg sched_arg)"
    and "reachable_from w (step w)"
    by (simp_all add: fobf_recordMeetingStart)
  thus "\<exists>h w'. recordMeetingStart uid mid title_arg sched_arg w = (Inr h, w')"
    by (rule succeeds_if_reachable)
qed (use recordMeetingStart_Inr in blast)+

text \<open>User 1 starts the scheduled meeting \<open>m1\<close> in the empty world.\<close>

theorem recordMeetingStart_records_witness:
  "\<exists>doc w'. recordMeetingStart 1 ''m1'' None (Some True) empty_world = (Inr (0, doc), w')
      \<and> status doc = active \<and> startTime doc = 0 \<and> meetingTitle doc = ''Video Call''
      \<and> MeetingRecord_coll w' = [doc]
      \<and> counter_of totalCalls w' 1 = 1 \<and> counter_of meetingsScheduled w' 1 = 1"
proof -
  note T = recordMeetingStart_records [of "''m1''" empty_world 1 None "Some True"]
  have "''m1'' \<noteq> [] \<and> reachable_from empty_world (step empty_world)"
    by (simp add: reachable_empty_world)
  with T obtain h w' where "recordMeetingStart 1 ''m1'' None (Some True) empty_world = (Inr h, w')"
    by blast
  then obtain rid doc where
    ok: "recordMeetingStart 1 ''m1'' None (Some True) empty_world = (Inr (rid, doc), w')"
    by (cases h) simp
  have c: "counter_of totalCalls empty_world 1 = 0"
          "counter_of meetingsScheduled empty_world 1 = 0"
    by (simp_all add: counter_of_def stats_of_def empty_world_def)
  from T ok have
    "doc = \<lparr>MeetingRecord.userId = 1, meetingId = ''m1'',
            meetingTitle = or_default ''Video Call'' None,
            startTime = clock empty_world (step empty_world), endTime = None, duration = 0,
            participantCount = 1, isScheduled = or_default False (Some True),
            status = active, MeetingRecord.createdAt = clock empty_world (Suc (step empty_world))\<rparr>
     \<and> rid = length (MeetingRecord_coll empty_world)
     \<and> MeetingRecord_coll w' = MeetingRecord_coll empty_world @ [doc]
     \<and> counter_of totalCalls w' 1 = counter_of totalCalls empty_world 1 + 1
     \<and> counter_of meetingsScheduled w' 1
          = counter_of meetingsScheduled empty_world 1
            + (if or_default False (Some True) then 1 else 0)"
    by blast
  with ok c show ?thesis
    by (simp add: or_default_def empty_world_def example_clock_def)
qed

lemma resetMonthlyStats_loop_Inr:
  assumes "resetMonthlyStats_loop (enumerate k ys) w1 = (Inr u, w')"
  shows "MeetingRecord_coll w' = MeetingRecord_coll w1
       \<and> length (MeetingStats_coll w') = length (MeetingStats_coll w1)
       \<and> (\<forall>j<length (MeetingStats_coll w1).
            MeetingStats_coll w' ! j
              = (if k \<le> j \<and> j < k + length ys then rolled_over (ys ! (j - k))
                 else MeetingStats_coll w1 ! j))"
  using assms
proof (induction ys arbitrary: k w1)
  case Nil
  then show ?case by (simp add: return_iff)
next
  case (Cons y ys)
  let ?w2 = "(tick w1)\<lparr>MeetingStats_coll := (MeetingStats_coll w1)[k := rolled_over y]\<rparr>"
  from Cons.prems have "resetMonthlyStats_loop (enumerate (Suc k) ys) ?w2 = (Inr u, w')"
    by (auto simp: await_Inr_iff MeetingStats_update_Inr_iff rolled_over_def)
  from Cons.IH [OF this] have
    r: "MeetingRecord_coll w' = MeetingRecord_coll w1"
    and l: "length (MeetingStats_coll w') = length (MeetingStats_coll w1)"
    and n: "\<And>j. j < length (MeetingStats_coll w1) \<Longrightarrow>
            MeetingStats_coll w' ! j
              = (if Suc k \<le> j \<and> j < Suc k + length ys then rolled_over (ys ! (j - Suc k))
                 else (MeetingStats_coll w1)[k := rolled_over y] ! j)"
    by (simp_all add: tick_simps)
  have "MeetingStats_coll w' ! j
          = (if k \<le> j \<and> j < k + length (y # ys) then rolled_over ((y # ys) ! (j - k))
             else MeetingStats_coll w1 ! j)"
    if j: "j < length (MeetingStats_coll w1)" for j
  proof (cases "j = k")
    case True
    with n [OF j] j show ?thesis by simp
  next
    case False
    show ?thesis
    proof (cases "k < j")
      case True
      hence "(y # ys) ! (j - k) = ys ! (j - Suc k)"
        by (simp add: nth_Cons')
      with n [OF j] True show ?thesis by auto
    next
      case False
      with \<open>j \<noteq> k\<close> n [OF j] show ?thesis by auto
    qed
  qed
  with r l show ?case by blast
qed

lemma fobf_resetMonthlyStats_loop: "fails_only_by_fault (resetMonthlyStats_loop hs)"
proof (induction hs)
  case Nil
  have "resetMonthlyStats_loop [] = return ()" by (rule ext) simp
  thus ?case by (simp add: fobf_return)
next
  case (Cons h hs)
  obtain sid stats where h: "h = (sid, stats)" by (cases h)
  have "resetMonthlyStats_loop (h # hs)
          = await (MeetingStats_update (sid, rolled_over stats)) (\<lambda>_. resetMonthlyStats_loop hs)"
    by (rule ext) (simp add: h rolled_over_def)
  with Cons show ?case by (simp add: fobf_await fobf_MeetingStats_update)
qed

lemma fobf_resetMonthlyStats: "fails_only_by_fault resetMonthlyStats"
  unfolding resetMonthlyStats_def
  by (intro fobf_await fobf_MeetingStats_find fobf_resetMonthlyStats_loop)

lemma resetMonthlyStats_Inr:
  assumes "resetMonthlyStats w = (Inr u, w')"
  shows "MeetingStats_coll w' = map rolled_over (MeetingStats_coll w)
       \<and> MeetingRecord_coll w' = MeetingRecord_coll w"
proof -
  from assms have "resetMonthlyStats_loop (enumerate 0 (MeetingStats_coll w)) (tick w) = (Inr u, w')"
    by (auto simp: resetMonthlyStats_def MeetingStats_find_def await_Inr_iff store_op_Inr_iff
        tick_simps)
  from resetMonthlyStats_loop_Inr [OF this]
  have r: "MeetingRecord_coll w' = MeetingRecord_coll w"
    and l: "length (MeetingStats_coll w') = length (MeetingStats_coll w)"
    and n: "\<forall>j<length (MeetingStats_coll w).
              MeetingStats_coll w' ! j = rolled_over (MeetingStats_coll w ! j)"
    by (simp_all add: tick_simps)
  from l n have "MeetingStats_coll w' = map rolled_over (MeetingStats_coll w)"
    by (simp add: list_eq_iff_nth_eq)
  with r show ?thesis by simp
qed


lemma rolled_over_simps:
  "lastMonthStats (rolled_over s)
     = \<lparr>totalCalls = totalCalls s, totalDuration = totalDuration s,
        totalParticipants = totalParticipants s, meetingsScheduled = meetingsScheduled s\<rparr>"
  "totalCalls (rolled_over s) = totalCalls s"
  "totalDuration (rolled_over s) = totalDuration s"
  "totalParticipants (rolled_over s) = totalParticipants s"
  "meetingsScheduled (rolled_over s) = meetingsScheduled s"
  "MeetingStats.userId (rolled_over s) = MeetingStats.userId s"
  "lastUpdated (rolled_over s) = lastUpdated s"
  "createdAt (rolled_over s) = createdAt s"
  by (cases s; simp add: rolled_over_def)+

text \<open>
  C5. When the store answers every round trip, \<open>resetMonthlyStats\<close> returns. Whenever it
  returns, every statistics document has its four live counters copied into
  \<open>lastMonthStats\<close> and its four live counters, and its user, unchanged; no document is
  added or removed, and the meeting records are untouched.
\<close>

theorem resetMonthlyStats_shifts_baseline:
  "(reachable_from w (step w) \<longrightarrow> (\<exists>w'. resetMonthlyStats w = (Inr (), w')))
   \<and> (\<forall>w'. resetMonthlyStats w = (Inr (), w') \<longrightarrow>
         length (MeetingStats_coll w') = length (MeetingStats_coll w)
       \<and> (\<forall>i<length (MeetingStats_coll w).
             lastMonthStats (MeetingStats_coll w' ! i)
               = \<lparr>totalCalls = totalCalls (MeetingStats_coll w ! i),
                  totalDuration = totalDuration (MeetingStats_coll w ! i),
                  totalParticipants = totalParticipants (MeetingStats_coll w ! i),
                  meetingsScheduled = meetingsScheduled (MeetingStats_coll w ! i)\<rparr>
           \<and> totalCalls (MeetingStats_coll w' ! i) = totalCalls (MeetingStats_coll w ! i)
           \<and> totalDuration (MeetingStats_coll w' ! i) = totalDuration (MeetingStats_coll w ! i)
           \<and> totalParticipants (MeetingStats_coll w' ! i)
                = totalParticipants (MeetingStats_coll w ! i)
           \<and> meetingsScheduled (MeetingStats_coll w' ! i)
                = meetingsScheduled (MeetingStats_coll w ! i)
           \<and> MeetingStats.userId (MeetingStats_coll w' ! i)
                = MeetingStats.userId (MeetingStats_coll w ! i))
       \<and> MeetingRecord_coll w' = MeetingRecord_coll w)"
proof (intro conjI impI allI)
  assume "reachable_from w (step w)"
  with fobf_resetMonthlyStats have "\<exists>u w'. resetMonthlyStats w = (Inr u, w')"
    by (rule succeeds_if_reachable)
  thus "\<exists>w'. resetMonthlyStats w = (Inr (), w')" by simp
qed (auto dest!: resetMonthlyStats_Inr simp: rolled_over_simps)

text \<open>The roll-over in the world where user 1 has made one call.\<close>

theorem resetMonthlyStats_shifts_baseline_witness:
  "\<exists>w'. resetMonthlyStats started_world = (Inr (), w')
      \<and> totalCalls (lastMonthStats (MeetingStats_coll w' ! 0)) = 1
      \<and> totalCalls (MeetingStats_coll w' ! 0) = 1"
proof -
  note T = resetMonthlyStats_shifts_baseline [of started_world]
  from T reachable_started_world obtain w' where ok: "resetMonthlyStats started_world = (Inr (), w')"
    by blast
  have "0 < length (MeetingStats_coll started_world)"
    by (simp add: started_world_def)
  with T ok have
    "lastMonthStats (MeetingStats_coll w' ! 0)
       = \<lparr>totalCalls = totalCalls (MeetingStats_coll started_world ! 0),
          totalDuration = totalDuration (MeetingStats_coll started_world ! 0),
          totalParticipants = totalParticipants (MeetingStats_coll started_world ! 0),
          meetingsScheduled = meetingsScheduled (MeetingStats_coll started_world ! 0)\<rparr>
     \<and> totalCalls (MeetingStats_coll w' ! 0) = totalCalls (MeetingStats_coll started_world ! 0)"
    by blast
  with ok show ?thesis
    by (simp add: started_world_def example_stats_def)
qed

lemma getUserStats_interleaved_id: "getUserStats_interleaved (\<lambda>w. w) uid = getUserStats uid"
  by (rule ext) (simp add: getUserStats_interleaved_def getUserStats_def)

















lemma meetingStart_processing_Some:
  "meetingStart_processing (Some (Started uid mid title sched)) w =
     (case recordMeetingStart uid mid title sched w of
        (Inl e, w1) \<Rightarrow> (Inl e, w1)
      | (Inr h, w1) \<Rightarrow>
          (case getFormattedStats uid w1 of
             (Inl e, w2) \<Rightarrow> (Inl e, w2)
           | (Inr stats, w2) \<Rightarrow> (Inr (uid, stats), w2)))"
  by (simp add: meetingStart_processing_def await_def return_def split: prod.splits sum.splits)

lemma meetingEnd_processing_Some:
  "meetingEnd_processing (Some (Ended uid mid count)) w =
     (case recordMeetingEnd uid mid count w of
        (Inl e, w1) \<Rightarrow> (Inl e, w1)
      | (Inr h, w1) \<Rightarrow>
          (case getFormattedStats uid w1 of
             (Inl e, w2) \<Rightarrow> (Inl e, w2)
           | (Inr stats, w2) \<Rightarrow> (Inr (uid, stats), w2)))"
  by (simp add: meetingEnd_processing_def await_def return_def split: prod.splits sum.splits)

lemma handleMeetingStart_cases:
  "(\<forall>e. fst (meetingStart_processing data w) = Inl e \<longrightarrow>
        fst (handleMeetingStart data w) = [Emit (stats_error ''Failed to update meeting statistics'')])
   \<and> (\<forall>uid stats. fst (meetingStart_processing data w) = Inr (uid, stats) \<longrightarrow>
        fst (handleMeetingStart data w)
          = [Emit (stats_updated stats), Broadcast (stats_updated_for uid stats)])
   \<and> snd (handleMeetingStart data w) = snd (meetingStart_processing data w)"
  by (cases "meetingStart_processing data w"; cases "fst (meetingStart_processing data w)")
     (auto simp: handleMeetingStart_def)

lemma handleMeetingEnd_cases:
  "(\<forall>e. fst (meetingEnd_processing data w) = Inl e \<longrightarrow>
        fst (handleMeetingEnd data w) = [Emit (stats_error ''Failed to update meeting statistics'')])
   \<and> (\<forall>uid stats. fst (meetingEnd_processing data w) = Inr (uid, stats) \<longrightarrow>
        fst (handleMeetingEnd data w)
          = [Emit (stats_updated stats), Broadcast (stats_updated_for uid stats)])
   \<and> snd (handleMeetingEnd data w) = snd (meetingEnd_processing data w)"
  by (cases "meetingEnd_processing data w"; cases "fst (meetingEnd_processing data w)")
     (auto simp: handleMeetingEnd_def)


text \<open>
  C9. A \<open>meeting-started\<close> message without a payload, or one for which
  \<open>recordMeetingStart\<close> or the following \<open>getFormattedStats\<close> throws, is answered by the
  single emission of \<open>stats-error\<close> to the originating connection; only when both return
  does the handler emit \<open>stats-updated\<close> to the origin and broadcast it with the user id.
  The same holds for \<open>meeting-ended\<close> with \<open>recordMeetingEnd\<close>. The failure reply
  contains no broadcast.
\<close>

theorem relay_reports_failure_to_origin_only:
  "(handleMeetingStart None w = (failure_reply, w))
   \<and> (case recordMeetingStart uid mid title sched w of
         (Inl e, w1) \<Rightarrow>
           handleMeetingStart (Some (Started uid mid title sched)) w = (failure_reply, w1)
       | (Inr h, w1) \<Rightarrow>
           (case getFormattedStats uid w1 of
              (Inl e, w2) \<Rightarrow>
                handleMeetingStart (Some (Started uid mid title sched)) w = (failure_reply, w2)
            | (Inr stats, w2) \<Rightarrow>
                handleMeetingStart (Some (Started uid mid title sched)) w
                  = ([Emit (stats_updated stats), Broadcast (stats_updated_for uid stats)], w2)))
   \<and> (handleMeetingEnd None w = (failure_reply, w))
   \<and> (case recordMeetingEnd uid mid count w of
         (Inl e, w1) \<Rightarrow>
           handleMeetingEnd (Some (Ended uid mid count)) w = (failure_reply, w1)
       | (Inr r, w1) \<Rightarrow>
           (case getFormattedStats uid w1 of
              (Inl e, w2) \<Rightarrow>
                handleMeetingEnd (Some (Ended uid mid count)) w = (failure_reply, w2)
            | (Inr stats, w2) \<Rightarrow>
                handleMeetingEnd (Some (Ended uid mid count)) w
                  = ([Emit (stats_updated stats), Broadcast (stats_updated_for uid stats)], w2)))
   \<and> (\<forall>m. Broadcast m \<notin> set failure_reply)"
proof (intro conjI)
  show "handleMeetingStart None w = (failure_reply, w)"
    by (simp add: handleMeetingStart_def meetingStart_processing_def throw_def failure_reply_def)
  show "handleMeetingEnd None w = (failure_reply, w)"
    by (simp add: handleMeetingEnd_def meetingEnd_processing_def throw_def failure_reply_def)
  show "\<forall>m. Broadcast m \<notin> set failure_reply"
    by (simp add: failure_reply_def)
next
  obtain r1 w1 where 1: "recordMeetingStart uid mid title sched w = (r1, w1)"
    by (cases "recordMeetingStart uid mid title sched w")
  obtain r2 w2 where 2: "getFormattedStats uid w1 = (r2, w2)"
    by (cases "getFormattedStats uid w1")
  show "case recordMeetingStart uid mid title sched w of
         (Inl e, w1) \<Rightarrow>
           handleMeetingStart (Some (Started uid mid title sched)) w = (failure_reply, w1)
       | (Inr h, w1) \<Rightarrow>
           (case getFormattedStats uid w1 of
              (Inl e, w2) \<Rightarrow>
                handleMeetingStart (Some (Started uid mid title sched)) w = (failure_reply, w2)
            | (Inr stats, w2) \<Rightarrow>
                handleMeetingStart (Some (Started uid mid title sched)) w
                  = ([Emit (stats_updated stats), Broadcast (stats_updated_for uid stats)], w2))"
    by (cases r1; cases r2)
       (simp_all add: 1 2 handleMeetingStart_def meetingStart_processing_Some failure_reply_def)
next
  obtain r1 w1 where 1: "recordMeetingEnd uid mid count w = (r1, w1)"
    by (cases "recordMeetingEnd uid mid count w")
  obtain r2 w2 where 2: "getFormattedStats uid w1 = (r2, w2)"
    by (cases "getFormattedStats uid w1")
  show "case recordMeetingEnd uid mid count w of
         (Inl e, w1) \<Rightarrow>
           handleMeetingEnd (Some (Ended uid mid count)) w = (failure_reply, w1)
       | (Inr r, w1) \<Rightarrow>
           (case getFormattedStats uid w1 of
              (Inl e, w2) \<Rightarrow>
                handleMeetingEnd (Some (Ended uid mid count)) w = (failure_reply, w2)
            | (Inr stats, w2) \<Rightarrow>
                handleMeetingEnd (Some (Ended uid mid count)) w
                  = ([Emit (stats_updated stats), Broadcast (stats_updated_for uid stats)], w2))"
    by (cases r1; cases r2)
       (simp_all add: 1 2 handleMeetingEnd_def meetingEnd_processing_Some failure_reply_def)
qed

lemma recordMeetingStart_empty_meetingId:
  "recordMeetingStart uid [] title sched w = (Inl ValidationError, tick (tick w))"
  by (simp add: recordMeetingStart_def Let_def await_def new_Date_def new_MeetingRecord_def
      MeetingRecord_insert_def throw_def return_def)

lemma getFormattedStats_started_world:
  "getFormattedStats 1 (tick started_world) =
     (Inr \<lparr>FormattedStats.totalCalls = \<lparr>value = 1, change = 100, changeType = positive\<rparr>,
           FormattedStats.totalDuration =
             \<lparr>value = ''0h 0m'', change = 0, changeType = neutral, rawValue = 0\<rparr>,
           FormattedStats.totalParticipants = \<lparr>value = 0, change = 0, changeType = neutral\<rparr>,
           FormattedStats.meetingsScheduled = \<lparr>value = 0, change = 0, changeType = neutral\<rparr>,
           FormattedStats.lastUpdated = 0\<rparr>,
      tick (tick started_world))"
  by (simp add: getFormattedStats_def getUserStats_def MeetingStats_findOne_def loaded_def
      await_def store_op_def return_def tick_def started_world_def no_fault_def
      example_stats_def zero_counters_def calculatePercentageChange_def changeTypeOf_def
      formatDuration_eq js_rem_def ToString_def digit_char_def)

text \<open>
  A start with an empty meeting id fails validation and is answered by the error alone;
  an end for a meeting that is not active is no failure, and the statistics are sent
  and broadcast.
\<close>

theorem relay_reports_failure_to_origin_only_witness:
  "fst (handleMeetingStart (Some (Started 1 [] None None)) empty_world)
     = [Emit (stats_error ''Failed to update meeting statistics'')]
   \<and> fst (handleMeetingEnd (Some (Ended 1 ''m2'' None)) started_world)
     = [Emit (stats_updated
          \<lparr>FormattedStats.totalCalls = \<lparr>value = 1, change = 100, changeType = positive\<rparr>,
           FormattedStats.totalDuration =
             \<lparr>value = ''0h 0m'', change = 0, changeType = neutral, rawValue = 0\<rparr>,
           FormattedStats.totalParticipants = \<lparr>value = 0, change = 0, changeType = neutral\<rparr>,
           FormattedStats.meetingsScheduled = \<lparr>value = 0, change = 0, changeType = neutral\<rparr>,
           FormattedStats.lastUpdated = 0\<rparr>),
        Broadcast (stats_updated_for 1
          \<lparr>FormattedStats.totalCalls = \<lparr>value = 1, change = 100, changeType = positive\<rparr>,
           FormattedStats.totalDuration =
             \<lparr>value = ''0h 0m'', change = 0, changeType = neutral, rawValue = 0\<rparr>,
           FormattedStats.totalParticipants = \<lparr>value = 0, change = 0, changeType = neutral\<rparr>,
           FormattedStats.meetingsScheduled = \<lparr>value = 0, change = 0, changeType = neutral\<rparr>,
           FormattedStats.lastUpdated = 0\<rparr>)]"
proof -
  have h: "\<forall>d\<in>set (MeetingRecord_coll started_world). \<not> record_filter 1 ''m2'' active d"
    by (simp add: started_world_def example_record_def record_filter_def)
  have "\<not> fault started_world (step started_world)"
    by (simp add: started_world_def no_fault_def)
  with recordMeetingEnd_null [OF h, of None]
  have e: "recordMeetingEnd 1 ''m2'' None started_world = (Inr None, tick started_world)"
    by (simp add: prod_eq_iff)
  have a: "handleMeetingStart (Some (Started 1 [] None None)) empty_world
             = (failure_reply, tick (tick empty_world))"
    using relay_reports_failure_to_origin_only
            [where w = empty_world and uid = 1 and mid = "[]" and title = None and sched = None
               and count = None, THEN conjunct2, THEN conjunct1]
    by (simp only: recordMeetingStart_empty_meetingId prod.case sum.case)
  have b: "handleMeetingEnd (Some (Ended 1 ''m2'' None)) started_world
     = ([Emit (stats_updated
          \<lparr>FormattedStats.totalCalls = \<lparr>value = 1, change = 100, changeType = positive\<rparr>,
           FormattedStats.totalDuration =
             \<lparr>value = ''0h 0m'', change = 0, changeType = neutral, rawValue = 0\<rparr>,
           FormattedStats.totalParticipants = \<lparr>value = 0, change = 0, changeType = neutral\<rparr>,
           FormattedStats.meetingsScheduled = \<lparr>value = 0, change = 0, changeType = neutral\<rparr>,
           FormattedStats.lastUpdated = 0\<rparr>),
        Broadcast (stats_updated_for 1
          \<lparr>FormattedStats.totalCalls = \<lparr>value = 1, change = 100, changeType = positive\<rparr>,
           FormattedStats.totalDuration =
             \<lparr>value = ''0h 0m'', change = 0, changeType = neutral, rawValue = 0\<rparr>,
           FormattedStats.totalParticipants = \<lparr>value = 0, change = 0, changeType = neutral\<rparr>,
           FormattedStats.meetingsScheduled = \<lparr>value = 0, change = 0, changeType = neutral\<rparr>,
           FormattedStats.lastUpdated = 0\<rparr>)], tick (tick started_world))"
    using relay_reports_failure_to_origin_only
            [where w = started_world and uid = 1 and mid = "''m2''" and title = None
               and sched = None and count = None,
             THEN conjunct2, THEN conjunct2, THEN conjunct2, THEN conjunct1]
    by (simp only: e getFormattedStats_started_world prod.case sum.case)
  from a b show ?thesis by (simp add: failure_reply_def)
qed

end
